theory Spec2Isabelle
  imports Main
begin

section \<open>Python values, strings and exceptions\<close>

text \<open>
  The helper class \<^verbatim>\<open>PostgresHelper\<close> of \<^verbatim>\<open>PostgresDatabaseHelper.py\<close> is glue code
  around the psycopg2 driver. The model keeps the class's own control flow (every
  \<^verbatim>\<open>try\<close>/\<^verbatim>\<open>except\<close>, every attribute access on a possibly-\<^verbatim>\<open>None\<close> field, the loop
  of \<^verbatim>\<open>bulk_insert\<close>) and takes the driver as a parameter.

  A Python \<^verbatim>\<open>str\<close> is modelled as a \<^typ>\<open>string\<close> whose characters are the code points
  \<open>0\<close> to \<open>255\<close>; SQL values and bound parameters are \<open>val\<close>.
\<close>

datatype val = VNone | VInt int | VStr string | VBool bool

type_synonym sql = string

text \<open>\<^verbatim>\<open>params=None\<close> is \<open>None\<close>; a supplied parameter sequence is \<open>Some ps\<close>.\<close>

type_synonym params = "val list option"

text \<open>
  Every exception carries the text that \<^verbatim>\<open>str(e)\<close> gives. \<open>DriverError\<close> stands for
  whatever psycopg2 raises; all constructors are subclasses of \<^verbatim>\<open>Exception\<close>, so
  \<^verbatim>\<open>except Exception\<close> catches each of them.
\<close>

datatype exn =
    DriverError string
  | AttributeError string
  | TypeError string
  | KeyError string
  | IndexError string
  | ValueError string
  | PostgresDbConnectionError string
  | PostgresDbQueryExecutionError string

fun str_exn :: "exn \<Rightarrow> string" where
  "str_exn (DriverError m) = m"
| "str_exn (AttributeError m) = m"
| "str_exn (TypeError m) = m"
| "str_exn (KeyError m) = m"
| "str_exn (IndexError m) = m"
| "str_exn (ValueError m) = m"
| "str_exn (PostgresDbConnectionError m) = m"
| "str_exn (PostgresDbQueryExecutionError m) = m"

text \<open>\<^verbatim>\<open>str.isspace\<close>, \<^verbatim>\<open>str.strip\<close>, \<^verbatim>\<open>str.lower\<close> and \<^verbatim>\<open>str.startswith\<close> on code points below 256.\<close>

definition isspace :: "char \<Rightarrow> bool" where
  "isspace c = ((of_char c :: nat) \<in> set [9, 10, 11, 12, 13, 28, 29, 30, 31, 32, 133, 160])"

definition strip :: "string \<Rightarrow> string" where
  "strip s = rev (dropWhile isspace (rev (dropWhile isspace s)))"

definition lower_char :: "char \<Rightarrow> char" where
  "lower_char c =
     (let n = (of_char c :: nat)
      in if (65 \<le> n \<and> n \<le> 90) \<or> (192 \<le> n \<and> n \<le> 222 \<and> n \<noteq> 215)
         then char_of (n + 32) else c)"

definition lower :: "string \<Rightarrow> string" where
  "lower s = map lower_char s"

definition startswith :: "string \<Rightarrow> string \<Rightarrow> bool" where
  "startswith s p = (take (length p) s = p)"

text \<open>
  \<^verbatim>\<open>range(start, stop, step)\<close> as the list it iterates over; a zero step raises
  \<^verbatim>\<open>ValueError\<close>. The length is computed as CPython does.
\<close>

definition range_len :: "int \<Rightarrow> int \<Rightarrow> int \<Rightarrow> nat" where
  "range_len start stop step =
     (if 0 < step \<and> start < stop then nat ((stop - start - 1) div step + 1)
      else if step < 0 \<and> stop < start then nat ((start - stop - 1) div (- step) + 1)
      else 0)"

definition py_range :: "int \<Rightarrow> int \<Rightarrow> int \<Rightarrow> exn + int list" where
  "py_range start stop step =
     (if step = 0 then Inl (ValueError ''range() arg 3 must not be zero'')
      else Inr (map (\<lambda>k. start + int k * step) [0 ..< range_len start stop step]))"

text \<open>
  The slice \<^verbatim>\<open>xs[i:j]\<close>: a negative bound counts from the end, and both bounds are
  clamped to the list.
\<close>

definition clamp_index :: "nat \<Rightarrow> int \<Rightarrow> nat" where
  "clamp_index n i = (if i < 0 then nat (max (i + int n) 0) else min (nat i) n)"

definition py_slice :: "'a list \<Rightarrow> int \<Rightarrow> int \<Rightarrow> 'a list" where
  "py_slice xs i j =
     (let lo = clamp_index (length xs) i; hi = clamp_index (length xs) j
      in take (hi - lo) (drop lo xs))"

section \<open>The driver and the world\<close>

text \<open>
  psycopg2 is not part of the repository. Each call that the helper makes on it is
  recorded, with its outcome, in the world: the chronological list of driver calls and
  log records. The driver is any deterministic environment: whether a call raises, and
  which rows a fetch finds, are functions of everything that happened before.
\<close>

record conn_params =
  host :: string
  port :: int
  database :: string
  user :: string
  password :: string

datatype call =
    Connect conn_params
  | SetAutocommit bool
  | NewCursor bool
  | Execute sql params
  | ExecuteMany sql "val list list"
  | FetchAll
  | FetchOne
  | Commit
  | Rollback
  | CursorClose
  | ConnectionClose

datatype logger = Logger string

datatype level = INFO | ERROR

datatype event =
    Driver call "exn option"
  | Log logger level string

type_synonym world = "event list"

text \<open>A row as the server sends it: the selected columns in order, each with its name.\<close>

type_synonym raw_row = "(string \<times> val) list"

record driver =
  raises :: "world \<Rightarrow> call \<Rightarrow> exn option"
  result_set :: "world \<Rightarrow> raw_row list"

text \<open>
  A computation takes the world and returns either the exception it raised or its
  value, with the world it left behind.
\<close>

type_synonym 'a prog = "world \<Rightarrow> (exn + 'a) \<times> world"

definition ret :: "'a \<Rightarrow> 'a prog" where
  "ret x w = (Inr x, w)"

definition raise_exn :: "exn \<Rightarrow> 'a prog" where
  "raise_exn e w = (Inl e, w)"

definition and_then :: "'a prog \<Rightarrow> ('a \<Rightarrow> 'b prog) \<Rightarrow> 'b prog" where
  "and_then m f w = (case m w of (Inl e, w') \<Rightarrow> (Inl e, w') | (Inr x, w') \<Rightarrow> f x w')"

text \<open>\<^verbatim>\<open>try: body except Exception as e: handler\<close>\<close>

definition try_except :: "'a prog \<Rightarrow> (exn \<Rightarrow> 'a prog) \<Rightarrow> 'a prog" where
  "try_except body handler w =
     (case body w of (Inl e, w') \<Rightarrow> handler e w' | (Inr x, w') \<Rightarrow> (Inr x, w'))"

definition lift :: "exn + 'a \<Rightarrow> 'a prog" where
  "lift r w = (r, w)"

primrec for_each :: "'a list \<Rightarrow> ('a \<Rightarrow> unit prog) \<Rightarrow> unit prog" where
  "for_each [] body = ret ()"
| "for_each (x # xs) body = and_then (body x) (\<lambda>_. for_each xs body)"

definition driver_call :: "driver \<Rightarrow> call \<Rightarrow> unit prog" where
  "driver_call drv c w =
     (case raises drv w c of
        Some e \<Rightarrow> (Inl e, w @ [Driver c (Some e)])
      | None \<Rightarrow> (Inr (), w @ [Driver c None]))"

definition log_info :: "logger \<Rightarrow> string \<Rightarrow> unit prog" where
  "log_info lg msg w = (Inr (), w @ [Log lg INFO msg])"

definition log_error :: "logger \<Rightarrow> string \<Rightarrow> unit prog" where
  "log_error lg msg w = (Inr (), w @ [Log lg ERROR msg])"

section \<open>Connection and cursor objects\<close>

text \<open>
  The connection object carries the \<^verbatim>\<open>autocommit\<close> attribute that the helper sets and
  reads; the cursor object remembers whether it was made with \<^verbatim>\<open>RealDictCursor\<close>.
  A field of the helper that holds \<^verbatim>\<open>None\<close> is \<open>None\<close>, and every attribute access on it
  raises \<^verbatim>\<open>AttributeError\<close>, as in Python. The texts of the built-in exceptions are
  CPython's usual ones; the properties below depend on the class of an exception and on
  the text being carried along, not on its wording.
\<close>

record connection =
  autocommit :: bool

record cursor =
  dict_rows :: bool

datatype row = TupleRow "val list" | RealDictRow "(string \<times> val) list"

text \<open>\<^verbatim>\<open>repr\<close> of a string without quotes or escapes in it.\<close>

definition quoted :: "string \<Rightarrow> string" where
  "quoted s = CHR 0x27 # s @ [CHR 0x27]"

definition none_has_no_attribute :: "string \<Rightarrow> exn" where
  "none_has_no_attribute a =
     AttributeError (quoted ''NoneType'' @ '' object has no attribute '' @ quoted a)"

definition none_not_subscriptable :: exn where
  "none_not_subscriptable = TypeError (quoted ''NoneType'' @ '' object is not subscriptable'')"

definition psycopg2_connect :: "driver \<Rightarrow> conn_params \<Rightarrow> connection prog" where
  "psycopg2_connect drv cp =
     and_then (driver_call drv (Connect cp)) (\<lambda>_. ret \<lparr>autocommit = False\<rparr>)"

definition set_autocommit :: "driver \<Rightarrow> connection option \<Rightarrow> bool \<Rightarrow> connection prog" where
  "set_autocommit drv con b =
     (case con of
        None \<Rightarrow> raise_exn (none_has_no_attribute ''autocommit'')
      | Some c \<Rightarrow> and_then (driver_call drv (SetAutocommit b)) (\<lambda>_. ret (c\<lparr>autocommit := b\<rparr>)))"

definition get_autocommit :: "connection option \<Rightarrow> bool prog" where
  "get_autocommit con =
     (case con of
        None \<Rightarrow> raise_exn (none_has_no_attribute ''autocommit'')
      | Some c \<Rightarrow> ret (autocommit c))"

definition connection_cursor :: "driver \<Rightarrow> connection option \<Rightarrow> bool \<Rightarrow> cursor prog" where
  "connection_cursor drv con dict =
     (case con of
        None \<Rightarrow> raise_exn (none_has_no_attribute ''cursor'')
      | Some c \<Rightarrow> and_then (driver_call drv (NewCursor dict)) (\<lambda>_. ret \<lparr>dict_rows = dict\<rparr>))"

definition connection_commit :: "driver \<Rightarrow> connection option \<Rightarrow> unit prog" where
  "connection_commit drv con =
     (case con of
        None \<Rightarrow> raise_exn (none_has_no_attribute ''commit'')
      | Some c \<Rightarrow> driver_call drv Commit)"

definition connection_rollback :: "driver \<Rightarrow> connection option \<Rightarrow> unit prog" where
  "connection_rollback drv con =
     (case con of
        None \<Rightarrow> raise_exn (none_has_no_attribute ''rollback'')
      | Some c \<Rightarrow> driver_call drv Rollback)"

definition cursor_execute :: "driver \<Rightarrow> cursor option \<Rightarrow> sql \<Rightarrow> params \<Rightarrow> unit prog" where
  "cursor_execute drv cur query ps =
     (case cur of
        None \<Rightarrow> raise_exn (none_has_no_attribute ''execute'')
      | Some c \<Rightarrow> driver_call drv (Execute query ps))"

definition cursor_executemany :: "driver \<Rightarrow> cursor option \<Rightarrow> sql \<Rightarrow> val list list \<Rightarrow> unit prog" where
  "cursor_executemany drv cur query rows =
     (case cur of
        None \<Rightarrow> raise_exn (none_has_no_attribute ''executemany'')
      | Some c \<Rightarrow> driver_call drv (ExecuteMany query rows))"

text \<open>
  The cursor class decides the shape of a row: \<^verbatim>\<open>RealDictCursor\<close> gives a mapping from
  column name to value, the default cursor the tuple of the values.
\<close>

definition shape :: "bool \<Rightarrow> raw_row \<Rightarrow> row" where
  "shape dict r = (if dict then RealDictRow r else TupleRow (map snd r))"

definition cursor_fetchall :: "driver \<Rightarrow> cursor option \<Rightarrow> row list prog" where
  "cursor_fetchall drv cur =
     (case cur of
        None \<Rightarrow> raise_exn (none_has_no_attribute ''fetchall'')
      | Some c \<Rightarrow> (\<lambda>w. and_then (driver_call drv FetchAll)
                          (\<lambda>_. ret (map (shape (dict_rows c)) (result_set drv w))) w))"

definition cursor_fetchone :: "driver \<Rightarrow> cursor option \<Rightarrow> row option prog" where
  "cursor_fetchone drv cur =
     (case cur of
        None \<Rightarrow> raise_exn (none_has_no_attribute ''fetchone'')
      | Some c \<Rightarrow> (\<lambda>w. and_then (driver_call drv FetchOne)
                          (\<lambda>_. ret (case result_set drv w of
                                       [] \<Rightarrow> None
                                     | r # _ \<Rightarrow> Some (shape (dict_rows c) r))) w))"

text \<open>
  The two subscripts of \<^verbatim>\<open>select_get_count_query\<close>: \<^verbatim>\<open>result['count']\<close> and
  \<^verbatim>\<open>result[0]\<close>. In a \<^verbatim>\<open>RealDictRow\<close> built from columns with the same name the last
  one stays.
\<close>

definition getitem_str :: "row option \<Rightarrow> string \<Rightarrow> exn + val" where
  "getitem_str result k =
     (case result of
        None \<Rightarrow> Inl none_not_subscriptable
      | Some (TupleRow vs) \<Rightarrow>
          Inl (TypeError ''tuple indices must be integers or slices, not str'')
      | Some (RealDictRow kvs) \<Rightarrow>
          (case map_of (rev kvs) k of
             None \<Rightarrow> Inl (KeyError (quoted k))
           | Some v \<Rightarrow> Inr v))"

definition getitem_0 :: "row option \<Rightarrow> exn + val" where
  "getitem_0 result =
     (case result of
        None \<Rightarrow> Inl none_not_subscriptable
      | Some (TupleRow vs) \<Rightarrow>
          (case vs of [] \<Rightarrow> Inl (IndexError ''tuple index out of range'') | v # _ \<Rightarrow> Inr v)
      | Some (RealDictRow kvs) \<Rightarrow> Inl (KeyError ''0''))"

section \<open>The class \<^verbatim>\<open>PostgresHelper\<close>\<close>

record helper =
  connection :: "connection option"
  cursor :: "cursor option"
  logger :: logger
  use_dict_cursor :: bool

text \<open>\<^verbatim>\<open>_initialize_logger\<close>: the logger named \<^verbatim>\<open>PostgresHelper\<close>.\<close>

definition initialize_logger :: logger where
  "initialize_logger = Logger ''PostgresHelper''"

text \<open>
  \<^verbatim>\<open>__init__\<close>, lines 64 to 83. Line 66 sets the \<^verbatim>\<open>autocommit\<close> attribute of
  \<^verbatim>\<open>self.connection\<close>, which line 64 has just set to \<^verbatim>\<open>None\<close>; it stands before the
  \<^verbatim>\<open>try\<close>. \<open>init_try\<close> is the rest, lines 67 to 83. The constructor's value is the
  instance; when it raises, the caller gets no instance.
\<close>

definition init_try ::
  "driver \<Rightarrow> conn_params \<Rightarrow> logger option \<Rightarrow> bool \<Rightarrow> bool \<Rightarrow> helper prog" where
  "init_try drv cp logger_arg autocommit_arg use_dict_cursor_arg =
     (let lg = (case logger_arg of Some l \<Rightarrow> l | None \<Rightarrow> initialize_logger)
      in try_except
           (and_then (psycopg2_connect drv cp) (\<lambda>con.
            and_then (set_autocommit drv (Some con) autocommit_arg) (\<lambda>con'.
            and_then (connection_cursor drv (Some con') use_dict_cursor_arg) (\<lambda>cur.
            and_then (log_info lg ''Database connection established successfully.'') (\<lambda>_.
            ret \<lparr>connection = Some con', cursor = Some cur, logger = lg,
                 use_dict_cursor = use_dict_cursor_arg\<rparr>)))))
           (\<lambda>e.
            and_then (log_error lg (''Error connecting to the database: '' @ str_exn e)) (\<lambda>_.
            raise_exn (PostgresDbConnectionError
                         (''Error connecting to the database: '' @ str_exn e)))))"

definition init ::
  "driver \<Rightarrow> conn_params \<Rightarrow> logger option \<Rightarrow> bool \<Rightarrow> bool \<Rightarrow> helper prog" where
  "init drv cp logger_arg autocommit_arg use_dict_cursor_arg =
     (let self_connection = (None :: connection option)
      in and_then (set_autocommit drv self_connection autocommit_arg) (\<lambda>_.
         init_try drv cp logger_arg autocommit_arg use_dict_cursor_arg))"

text \<open>The handler shared in shape by the six executing methods: log, roll back, re-raise.\<close>

definition on_error :: "driver \<Rightarrow> helper \<Rightarrow> string \<Rightarrow> exn \<Rightarrow> 'a prog" where
  "on_error drv self prefix e =
     and_then (log_error (logger self) (prefix @ str_exn e)) (\<lambda>_.
     and_then (connection_rollback drv (connection self)) (\<lambda>_.
     raise_exn (PostgresDbQueryExecutionError (prefix @ str_exn e))))"

definition select_execute_query ::
  "driver \<Rightarrow> helper \<Rightarrow> sql \<Rightarrow> params \<Rightarrow> row list option prog" where
  "select_execute_query drv self query ps =
     try_except
       (and_then (cursor_execute drv (cursor self) query ps) (\<lambda>_.
        if startswith (lower (strip query)) ''select''
        then and_then (cursor_fetchall drv (cursor self)) (\<lambda>rows. ret (Some rows))
        else ret None))
       (on_error drv self ''Error executing query: '')"

definition select_get_count_query ::
  "driver \<Rightarrow> helper \<Rightarrow> sql \<Rightarrow> params \<Rightarrow> val prog" where
  "select_get_count_query drv self query ps =
     try_except
       (and_then (cursor_execute drv (cursor self) query ps) (\<lambda>_.
        and_then (cursor_fetchone drv (cursor self)) (\<lambda>result.
        lift (if use_dict_cursor self then getitem_str result ''count''
              else getitem_0 result))))
       (on_error drv self ''Error getting row count: '')"

text \<open>
  \<^verbatim>\<open>insert\<close>, \<^verbatim>\<open>update_execute_query\<close> and \<^verbatim>\<open>delete_execute_query\<close> have the same body
  and differ in the text of the log record only.
\<close>

definition execute_and_commit :: "driver \<Rightarrow> helper \<Rightarrow> sql \<Rightarrow> params \<Rightarrow> unit prog" where
  "execute_and_commit drv self query ps =
     and_then (cursor_execute drv (cursor self) query ps) (\<lambda>_.
     and_then (get_autocommit (connection self)) (\<lambda>ac.
     if ac then connection_commit drv (connection self) else ret ()))"

definition insert_row :: "driver \<Rightarrow> helper \<Rightarrow> sql \<Rightarrow> params \<Rightarrow> unit prog" where
  "insert_row drv self query ps =
     try_except (execute_and_commit drv self query ps)
       (on_error drv self ''Error executing insert: '')"

definition update_execute_query :: "driver \<Rightarrow> helper \<Rightarrow> sql \<Rightarrow> params \<Rightarrow> unit prog" where
  "update_execute_query drv self query ps =
     try_except (execute_and_commit drv self query ps)
       (on_error drv self ''Error executing update: '')"

definition delete_execute_query :: "driver \<Rightarrow> helper \<Rightarrow> sql \<Rightarrow> params \<Rightarrow> unit prog" where
  "delete_execute_query drv self query ps =
     try_except (execute_and_commit drv self query ps)
       (on_error drv self ''Error executing delete: '')"

text \<open>
  \<^verbatim>\<open>bulk_insert\<close>: the \<^verbatim>\<open>range\<close> is formed first, inside the \<^verbatim>\<open>try\<close>; each index gives
  the chunk \<^verbatim>\<open>data[i:i + chunk_size]\<close> and one \<^verbatim>\<open>executemany\<close>.
\<close>

definition bulk_insert_body ::
  "driver \<Rightarrow> helper \<Rightarrow> sql \<Rightarrow> val list list \<Rightarrow> int \<Rightarrow> unit prog" where
  "bulk_insert_body drv self query data chunk_size =
     and_then (lift (py_range 0 (int (length data)) chunk_size)) (\<lambda>indices.
     and_then (for_each indices (\<lambda>i.
                 let chunk = py_slice data i (i + chunk_size)
                 in cursor_executemany drv (cursor self) query chunk)) (\<lambda>_.
     and_then (get_autocommit (connection self)) (\<lambda>ac.
     if ac then connection_commit drv (connection self) else ret ())))"

definition bulk_insert ::
  "driver \<Rightarrow> helper \<Rightarrow> sql \<Rightarrow> val list list \<Rightarrow> int \<Rightarrow> unit prog" where
  "bulk_insert drv self query data chunk_size =
     try_except (bulk_insert_body drv self query data chunk_size)
       (on_error drv self ''Error executing bulk insert: '')"

definition commit :: "driver \<Rightarrow> helper \<Rightarrow> unit prog" where
  "commit drv self =
     try_except (connection_commit drv (connection self))
       (\<lambda>e.
        and_then (log_error (logger self) (''Error committing transaction: '' @ str_exn e)) (\<lambda>_.
        raise_exn (PostgresDbQueryExecutionError
                     (''Error committing transaction: '' @ str_exn e))))"

definition rollback :: "driver \<Rightarrow> helper \<Rightarrow> unit prog" where
  "rollback drv self =
     try_except (connection_rollback drv (connection self))
       (\<lambda>e.
        and_then (log_error (logger self) (''Error rolling back transaction: '' @ str_exn e)) (\<lambda>_.
        raise_exn (PostgresDbQueryExecutionError
                     (''Error rolling back transaction: '' @ str_exn e))))"

text \<open>
  \<^verbatim>\<open>close\<close>: a cursor or connection object is always truthy, so each \<^verbatim>\<open>if\<close> tests for
  \<^verbatim>\<open>None\<close>. The method assigns to no field of \<^verbatim>\<open>self\<close>.
\<close>

definition close :: "driver \<Rightarrow> helper \<Rightarrow> unit prog" where
  "close drv self =
     try_except
       (and_then (case cursor self of
                    Some c \<Rightarrow> driver_call drv CursorClose
                  | None \<Rightarrow> ret ()) (\<lambda>_.
        case connection self of
          Some c \<Rightarrow> and_then (driver_call drv ConnectionClose) (\<lambda>_.
                    log_info (logger self) ''Database connection closed.'')
        | None \<Rightarrow> ret ()))
       (\<lambda>e.
        and_then (log_error (logger self) (''Error closing connection: '' @ str_exn e)) (\<lambda>_.
        raise_exn (PostgresDbConnectionError (''Error closing connection: '' @ str_exn e))))"

section \<open>Concrete drivers and instances\<close>

text \<open>
  A driver that accepts every call and finds no rows, one whose server refuses the
  connection, the parameters of the module's own example, and the instance that the
  constructor is meant to produce from them.
\<close>

definition accepting_driver :: driver where
  "accepting_driver = \<lparr>raises = (\<lambda>w c. None), result_set = (\<lambda>w. [])\<rparr>"

definition refusing_driver :: driver where
  "refusing_driver =
     \<lparr>raises = (\<lambda>w c. case c of
                          Connect cp \<Rightarrow> Some (DriverError ''connection refused'')
                        | _ \<Rightarrow> None),
      result_set = (\<lambda>w. [])\<rparr>"

definition example_params :: conn_params where
  "example_params =
     \<lparr>host = ''localhost'', port = 5432, database = ''mydb'',
      user = ''myuser'', password = ''mypassword''\<rparr>"

definition open_helper :: "bool \<Rightarrow> bool \<Rightarrow> helper" where
  "open_helper ac dict =
     \<lparr>connection = Some \<lparr>autocommit = ac\<rparr>, cursor = Some \<lparr>dict_rows = dict\<rparr>,
      logger = initialize_logger, use_dict_cursor = dict\<rparr>"

definition table_driver :: "raw_row list \<Rightarrow> driver" where
  "table_driver rows = \<lparr>raises = (\<lambda>w c. None), result_set = (\<lambda>w. rows)\<rparr>"

text \<open>
  The read-query test in the specification's words: skip the leading whitespace, ignore
  case, and look for \<^verbatim>\<open>select\<close> at the start.
\<close>

definition begins_with_select :: "sql \<Rightarrow> bool" where
  "begins_with_select query = startswith (lower (dropWhile isspace query)) ''select''"



fun applied_rows :: "event \<Rightarrow> (sql \<times> val list) list" where
  "applied_rows (Driver (ExecuteMany query rows) None) = map (Pair query) rows"
| "applied_rows ev = []"

definition applied :: "world \<Rightarrow> (sql \<times> val list) list" where
  "applied w = concat (map applied_rows w)"

text \<open>
  The chunks that the loop of \<^verbatim>\<open>bulk_insert\<close> passes to \<^verbatim>\<open>executemany\<close>, by the
  loop's own expressions: \<^verbatim>\<open>data[i:i + chunk_size]\<close> for \<^verbatim>\<open>i\<close> in
  \<^verbatim>\<open>range(0, len(data), chunk_size)\<close>.
\<close>

definition chunks :: "val list list \<Rightarrow> int \<Rightarrow> val list list list" where
  "chunks data chunk_size =
     (case py_range 0 (int (length data)) chunk_size of
        Inl e \<Rightarrow> []
      | Inr indices \<Rightarrow> map (\<lambda>i. py_slice data i (i + chunk_size)) indices)"



text \<open>
  The eight methods that run statements or end transactions, as one type of operations;
  \<open>perform\<close> runs one and keeps the error that reached the caller, if any, and the world.
\<close>

datatype operation =
    SelectExecuteQuery sql params
  | SelectGetCountQuery sql params
  | Insert sql params
  | BulkInsert sql "val list list" int
  | UpdateExecuteQuery sql params
  | DeleteExecuteQuery sql params
  | CommitTransaction
  | RollbackTransaction

definition outcome :: "(exn + 'a) \<times> world \<Rightarrow> exn option \<times> world" where
  "outcome r = (case fst r of Inl e \<Rightarrow> Some e | Inr x \<Rightarrow> None, snd r)"

fun perform :: "driver \<Rightarrow> helper \<Rightarrow> operation \<Rightarrow> world \<Rightarrow> exn option \<times> world" where
  "perform drv self (SelectExecuteQuery query ps) w =
     outcome (select_execute_query drv self query ps w)"
| "perform drv self (SelectGetCountQuery query ps) w =
     outcome (select_get_count_query drv self query ps w)"
| "perform drv self (Insert query ps) w = outcome (insert_row drv self query ps w)"
| "perform drv self (BulkInsert query data chunk_size) w =
     outcome (bulk_insert drv self query data chunk_size w)"
| "perform drv self (UpdateExecuteQuery query ps) w =
     outcome (update_execute_query drv self query ps w)"
| "perform drv self (DeleteExecuteQuery query ps) w =
     outcome (delete_execute_query drv self query ps w)"
| "perform drv self CommitTransaction w = outcome (commit drv self w)"
| "perform drv self RollbackTransaction w = outcome (rollback drv self w)"

text \<open>The text that each method's handler puts before the cause.\<close>

fun error_prefix :: "operation \<Rightarrow> string" where
  "error_prefix (SelectExecuteQuery query ps) = ''Error executing query: ''"
| "error_prefix (SelectGetCountQuery query ps) = ''Error getting row count: ''"
| "error_prefix (Insert query ps) = ''Error executing insert: ''"
| "error_prefix (BulkInsert query data chunk_size) = ''Error executing bulk insert: ''"
| "error_prefix (UpdateExecuteQuery query ps) = ''Error executing update: ''"
| "error_prefix (DeleteExecuteQuery query ps) = ''Error executing delete: ''"
| "error_prefix CommitTransaction = ''Error committing transaction: ''"
| "error_prefix RollbackTransaction = ''Error rolling back transaction: ''"

text \<open>Whether the method's handler calls \<^verbatim>\<open>self.connection.rollback()\<close>.\<close>

fun rolls_back :: "operation \<Rightarrow> bool" where
  "rolls_back CommitTransaction = False"
| "rolls_back RollbackTransaction = False"
| "rolls_back other = True"

text \<open>The exceptions of the driver calls that failed, in order.\<close>

fun event_failure :: "event \<Rightarrow> exn list" where
  "event_failure (Driver c (Some e)) = [e]"
| "event_failure ev = []"

definition failed_calls :: "world \<Rightarrow> exn list" where
  "failed_calls w = concat (map event_failure w)"

text \<open>
  A computation is tidy when it only appends to the world and stops at the first failed
  driver call: a run that returns has no failed call, and a run that raises has none
  but the one that raised.
\<close>

definition tidy :: "'a prog \<Rightarrow> bool" where
  "tidy m = (\<forall>w. \<exists>pre. snd (m w) = w @ pre \<and>
       (case fst (m w) of
          Inr x \<Rightarrow> failed_calls pre = []
        | Inl cause \<Rightarrow> set (failed_calls pre) \<subseteq> {cause}))"

text \<open>
  A server that has gone away (every statement and the rollback fail), and one that
  rejects every statement.
\<close>

definition broken_driver :: driver where
  "broken_driver =
     \<lparr>raises = (\<lambda>w c. case c of
                          Execute query ps \<Rightarrow>
                            Some (DriverError ''server closed the connection unexpectedly'')
                        | Rollback \<Rightarrow> Some (DriverError ''connection already closed'')
                        | _ \<Rightarrow> None),
      result_set = (\<lambda>w. [])\<rparr>"

definition rejecting_driver :: driver where
  "rejecting_driver =
     \<lparr>raises = (\<lambda>w c. case c of
                          Execute query ps \<Rightarrow> Some (DriverError ''syntax error at or near FROM'')
                        | _ \<Rightarrow> None),
      result_set = (\<lambda>w. [])\<rparr>"

section \<open>Properties\<close>

lemmas prog_defs = ret_def raise_exn_def and_then_def try_except_def lift_def
  driver_call_def log_info_def log_error_def

subsection \<open>Construction\<close>

text \<open>
  Line 66 raises for every argument list, before the connection attempt and outside the
  \<^verbatim>\<open>try\<close>: the world is untouched and the error is the \<^verbatim>\<open>AttributeError\<close>.
\<close>

lemma init_raises_at_line_66:
  "init drv cp logger_arg autocommit_arg use_dict_cursor_arg w =
     (Inl (none_has_no_attribute ''autocommit''), w)"
  by (simp add: init_def set_autocommit_def and_then_def raise_exn_def)

text \<open>The \<^verbatim>\<open>try\<close> block alone, on a server that accepts the connection.\<close>

lemma init_try_accepting:
  "init_try accepting_driver example_params None True False [] =
     (Inr (open_helper True False),
      [Driver (Connect example_params) None, Driver (SetAutocommit True) None,
       Driver (NewCursor False) None,
       Log initialize_logger INFO ''Database connection established successfully.''])"
  by (simp add: init_try_def prog_defs psycopg2_connect_def set_autocommit_def
      connection_cursor_def accepting_driver_def open_helper_def Let_def)

text \<open>The \<^verbatim>\<open>try\<close> block alone, on a server that refuses the connection.\<close>

lemma init_try_refusing:
  "init_try refusing_driver example_params None True False [] =
     (Inl (PostgresDbConnectionError ''Error connecting to the database: connection refused''),
      [Driver (Connect example_params) (Some (DriverError ''connection refused'')),
       Log initialize_logger ERROR ''Error connecting to the database: connection refused''])"
  by (simp add: init_try_def prog_defs psycopg2_connect_def refusing_driver_def Let_def)

text \<open>
  C1. Construction with valid parameters is claimed to succeed: one connection opened,
  autocommit set, a cursor made, the success record logged, the instance open. On the
  accepting server with the example's parameters the constructor raises the
  \<^verbatim>\<open>AttributeError\<close> of line 66 instead; no connection is opened and nothing is logged.
\<close>

theorem init_valid_parameters_attribute_error:
  "init accepting_driver example_params None True False [] =
     (Inl (AttributeError (quoted ''NoneType'' @ '' object has no attribute '' @
                           quoted ''autocommit'')), [])"
  by (simp add: init_raises_at_line_66 none_has_no_attribute_def)

text \<open>
  C2. Construction whose connection attempt fails is claimed to fail with
  \<^verbatim>\<open>PostgresDbConnectionError\<close> after logging the cause, and with no other kind of error.
  On the refusing server the constructor never reaches the connection attempt: the
  error that escapes is the \<^verbatim>\<open>AttributeError\<close> of line 66, and nothing is logged.
\<close>

theorem init_refused_connection_attribute_error:
  "init refusing_driver example_params None True False [] =
     (Inl (none_has_no_attribute ''autocommit''), [])"
  by (simp add: init_raises_at_line_66)

lemmas cursor_defs = cursor_execute_def cursor_executemany_def cursor_fetchall_def
  cursor_fetchone_def

lemmas connection_defs = connection_commit_def connection_rollback_def get_autocommit_def

subsection \<open>The read-query test\<close>

text \<open>
  The source strips both ends before it looks at the prefix. Stripping the tail never
  reaches the six letters of the keyword, so its test is the specification's.
\<close>

lemma lower_char_space: "isspace c \<Longrightarrow> lower_char c = c"
  by (auto simp: isspace_def lower_char_def Let_def)

lemma select_letters_not_space: "c \<in> set ''select'' \<Longrightarrow> \<not> isspace c"
  by (auto simp: isspace_def)

lemma lower_select_not_space:
  assumes "lower_char c \<in> set ''select''" shows "\<not> isspace c"
  using assms lower_char_space select_letters_not_space by fastforce

lemma strip_decompose:
  "dropWhile isspace q = strip q @ rev (takeWhile isspace (rev (dropWhile isspace q)))"
  unfolding strip_def
  by (simp only: rev_append [symmetric] takeWhile_dropWhile_id rev_rev_ident)

lemma startswith_append:
  "startswith xs p \<Longrightarrow> startswith (xs @ ys) p"
  by (cases "length p \<le> length xs") (auto simp: startswith_def)

lemma startswith_lower_nonspace:
  assumes "startswith (lower xs) p" "set p \<subseteq> set ''select''" "i < length p"
  shows "\<not> isspace (xs ! i)"
proof -
  from assms(1) have eq: "take (length p) (map lower_char xs) = p"
    by (simp add: startswith_def lower_def)
  from eq have "length (take (length p) (map lower_char xs)) = length p"
    by (rule arg_cong)
  then have len: "length p \<le> length xs"
    by simp
  have "p ! i = take (length p) (map lower_char xs) ! i"
    by (simp only: eq)
  also have "\<dots> = lower_char (xs ! i)"
    using assms(3) len by simp
  finally have "lower_char (xs ! i) = p ! i" by (rule sym)
  moreover have "p ! i \<in> set p"
    using assms(3) by (rule nth_mem)
  ultimately have "lower_char (xs ! i) \<in> set ''select''"
    using assms(2) by auto
  then show ?thesis by (rule lower_select_not_space)
qed

lemma strip_keeps_select:
  "startswith (lower (strip query)) ''select'' = begins_with_select query"
proof
  assume "startswith (lower (strip query)) ''select''"
  then have "startswith (lower (strip query) @ lower (rev (takeWhile isspace (rev (dropWhile isspace query))))) ''select''"
    by (rule startswith_append)
  then show "begins_with_select query"
    unfolding begins_with_select_def
    by (subst strip_decompose) (simp add: lower_def)
next
  assume b: "begins_with_select query"
  define d where "d = dropWhile isspace query"
  define s where "s = rev (takeWhile isspace (rev d))"
  have dec: "d = strip query @ s"
    unfolding d_def s_def by (rule strip_decompose)
  have sp: "\<forall>c \<in> set s. isspace c"
    unfolding s_def by (auto dest: set_takeWhileD)
  from b have sw: "startswith (lower d) ''select''"
    by (simp add: begins_with_select_def d_def)
  then have len: "6 \<le> length d"
  proof -
    from sw have "take (length ''select'') (lower d) = ''select''"
      by (simp only: startswith_def)
    then have "length (take (length ''select'') (lower d)) = length ''select''"
      by (rule arg_cong)
    then show ?thesis by (simp add: lower_def)
  qed
  have "6 \<le> length (strip query)"
  proof (rule ccontr)
    assume "\<not> 6 \<le> length (strip query)"
    then have lt: "length (strip query) < 6" by simp
    then have "\<not> isspace (d ! length (strip query))"
      using startswith_lower_nonspace [OF sw, of "length (strip query)"] by simp
    moreover have "s \<noteq> []" using dec len lt by auto
    then have "d ! length (strip query) \<in> set s"
    proof -
      have "d ! length (strip query) = s ! 0"
        using dec nth_append_length_plus [of "strip query" s 0] by simp
      moreover have "s ! 0 \<in> set s"
        using \<open>s \<noteq> []\<close> by (simp add: nth_mem)
      ultimately show ?thesis by simp
    qed
    ultimately show False using sp by blast
  qed
  then have "take (length ''select'') (lower d) = take (length ''select'') (lower (strip query))"
    using dec by (simp add: lower_def)
  then show "startswith (lower (strip query)) ''select''"
    using sw by (simp only: startswith_def)
qed

subsection \<open>\<^verbatim>\<open>select_execute_query\<close>\<close>

lemma select_execute_query_success:
  assumes "select_execute_query drv self query ps w = (Inr r, w')"
  shows "\<exists>c. cursor self = Some c \<and>
     (if startswith (lower (strip query)) ''select''
      then r = Some (map (shape (dict_rows c))
                      (result_set drv (w @ [Driver (Execute query ps) None])))
           \<and> w' = w @ [Driver (Execute query ps) None, Driver FetchAll None]
      else r = None \<and> w' = w @ [Driver (Execute query ps) None])"
  using assms
  by (auto simp: select_execute_query_def on_error_def prog_defs cursor_defs connection_defs
      split: option.splits if_splits sum.splits prod.splits)

text \<open>The call succeeds exactly when the driver accepts the statement and the fetch.\<close>

lemma select_execute_query_succeeds_iff:
  "(\<exists>r w'. select_execute_query drv self query ps w = (Inr r, w')) =
     (cursor self \<noteq> None \<and> raises drv w (Execute query ps) = None \<and>
      (startswith (lower (strip query)) ''select'' \<longrightarrow>
         raises drv (w @ [Driver (Execute query ps) None]) FetchAll = None))"
  by (auto simp: select_execute_query_def on_error_def prog_defs cursor_defs connection_defs
      split: option.splits if_splits sum.splits prod.splits)

text \<open>
  C3. For every statement and every successful execution, \<^verbatim>\<open>select_execute_query\<close>
  returns the fetched rows, each in the shape of the instance's cursor, if and only if
  the statement begins with \<^verbatim>\<open>select\<close> (case-insensitive, leading whitespace ignored);
  for any other statement it returns \<^verbatim>\<open>None\<close> and issues no fetch.
\<close>

theorem select_execute_query_rows_iff_select:
  assumes "select_execute_query drv self query ps w = (Inr r, w')"
  shows "\<exists>c. cursor self = Some c \<and>
     ((\<exists>rows. r = Some rows) = begins_with_select query) \<and>
     (if begins_with_select query
      then r = Some (map (shape (dict_rows c))
                      (result_set drv (w @ [Driver (Execute query ps) None])))
           \<and> w' = w @ [Driver (Execute query ps) None, Driver FetchAll None]
      else r = None \<and> w' = w @ [Driver (Execute query ps) None])"
proof -
  from select_execute_query_success [OF assms] obtain c where
    c: "cursor self = Some c"
    and r: "if begins_with_select query
      then r = Some (map (shape (dict_rows c))
                      (result_set drv (w @ [Driver (Execute query ps) None])))
           \<and> w' = w @ [Driver (Execute query ps) None, Driver FetchAll None]
      else r = None \<and> w' = w @ [Driver (Execute query ps) None]"
    unfolding strip_keeps_select by blast
  from r have "(\<exists>rows. r = Some rows) = begins_with_select query"
    by (cases "begins_with_select query") simp_all
  with c r show ?thesis by blast
qed

theorem select_execute_query_rows_iff_select_witness:
  "select_execute_query (table_driver [[(''id'', VInt 1), (''name'', VStr ''a'')]])
      (open_helper True False) ''  SeLeCt * FROM my_table;  '' None [] =
     (Inr (Some [TupleRow [VInt 1, VStr ''a'']]),
      [Driver (Execute ''  SeLeCt * FROM my_table;  '' None) None, Driver FetchAll None])
   \<and> begins_with_select ''  SeLeCt * FROM my_table;  ''
   \<and> select_execute_query (table_driver [[(''id'', VInt 1), (''name'', VStr ''a'')]])
      (open_helper True True) ''UPDATE my_table SET name = %s'' (Some [VStr ''b'']) [] =
     (Inr None, [Driver (Execute ''UPDATE my_table SET name = %s'' (Some [VStr ''b''])) None])
   \<and> \<not> begins_with_select ''UPDATE my_table SET name = %s''"
proof -
  have run1: "select_execute_query (table_driver [[(''id'', VInt 1), (''name'', VStr ''a'')]])
      (open_helper True False) ''  SeLeCt * FROM my_table;  '' None [] =
     (Inr (Some [TupleRow [VInt 1, VStr ''a'']]),
      [Driver (Execute ''  SeLeCt * FROM my_table;  '' None) None, Driver FetchAll None])"
    by code_simp
  have run2: "select_execute_query (table_driver [[(''id'', VInt 1), (''name'', VStr ''a'')]])
      (open_helper True True) ''UPDATE my_table SET name = %s'' (Some [VStr ''b'']) [] =
     (Inr None, [Driver (Execute ''UPDATE my_table SET name = %s'' (Some [VStr ''b''])) None])"
    by code_simp
  from select_execute_query_rows_iff_select [OF run1]
  have s1: "begins_with_select ''  SeLeCt * FROM my_table;  ''" by blast
  from select_execute_query_rows_iff_select [OF run2]
  have s2: "\<not> begins_with_select ''UPDATE my_table SET name = %s''" by blast
  from run1 run2 s1 s2 show ?thesis by blast
qed

subsection \<open>\<^verbatim>\<open>select_get_count_query\<close>\<close>

text \<open>
  C7. When the count statement executes and yields a single row, the method returns that
  row's value under the field \<^verbatim>\<open>count\<close> on an instance with the named shape, and the
  value at the first position on an instance with the positional shape. (The row is
  \<open>r\<close>, the columns as the server sends them; the instance's cursor was made with the
  instance's own shape flag.)
\<close>

theorem select_get_count_query_single_row:
  assumes "cursor self = Some cur"
    and "dict_rows cur = use_dict_cursor self"
    and "raises drv w (Execute query ps) = None"
    and "raises drv (w @ [Driver (Execute query ps) None]) FetchOne = None"
    and "result_set drv (w @ [Driver (Execute query ps) None]) = [r]"
  shows "(use_dict_cursor self \<and> map_of (rev r) ''count'' = Some v \<longrightarrow>
            select_get_count_query drv self query ps w =
              (Inr v, w @ [Driver (Execute query ps) None, Driver FetchOne None]))
       \<and> (\<not> use_dict_cursor self \<and> map snd r = v # vs \<longrightarrow>
            select_get_count_query drv self query ps w =
              (Inr v, w @ [Driver (Execute query ps) None, Driver FetchOne None]))"
  using assms
  by (simp add: select_get_count_query_def on_error_def prog_defs cursor_defs
      getitem_str_def getitem_0_def shape_def)

theorem select_get_count_query_single_row_witness:
  "select_get_count_query (table_driver [[(''count'', VInt 3)]]) (open_helper True True)
      ''SELECT COUNT(*) as count FROM my_table WHERE column_name = %s;''
      (Some [VStr ''value'']) [] =
     (Inr (VInt 3),
      [Driver (Execute ''SELECT COUNT(*) as count FROM my_table WHERE column_name = %s;''
                 (Some [VStr ''value''])) None,
       Driver FetchOne None])
   \<and> select_get_count_query (table_driver [[(''count'', VInt 3)]]) (open_helper True False)
      ''SELECT COUNT(*) FROM my_table;'' None [] =
     (Inr (VInt 3),
      [Driver (Execute ''SELECT COUNT(*) FROM my_table;'' None) None, Driver FetchOne None])"
  using select_get_count_query_single_row
          [where self = "open_helper True True" and cur = "\<lparr>dict_rows = True\<rparr>"
             and drv = "table_driver [[(''count'', VInt 3)]]" and w = "[]"
             and query = "''SELECT COUNT(*) as count FROM my_table WHERE column_name = %s;''"
             and ps = "Some [VStr ''value'']" and r = "[(''count'', VInt 3)]"
             and v = "VInt 3" and vs = "[]"]
        select_get_count_query_single_row
          [where self = "open_helper True False" and cur = "\<lparr>dict_rows = False\<rparr>"
             and drv = "table_driver [[(''count'', VInt 3)]]" and w = "[]"
             and query = "''SELECT COUNT(*) FROM my_table;''"
             and ps = None and r = "[(''count'', VInt 3)]"
             and v = "VInt 3" and vs = "[]"]
  by (simp add: open_helper_def table_driver_def)



subsection \<open>\<^verbatim>\<open>insert\<close>, \<^verbatim>\<open>update_execute_query\<close>, \<^verbatim>\<open>delete_execute_query\<close>\<close>

lemma execute_and_commit_run:
  assumes "cursor self = Some cur" and "connection self = Some con"
    and "raises drv w (Execute query ps) = None"
  shows "execute_and_commit drv self query ps w =
     (if autocommit con
      then (case raises drv (w @ [Driver (Execute query ps) None]) Commit of
              None \<Rightarrow> (Inr (), w @ [Driver (Execute query ps) None, Driver Commit None])
            | Some e \<Rightarrow> (Inl e, w @ [Driver (Execute query ps) None, Driver Commit (Some e)]))
      else (Inr (), w @ [Driver (Execute query ps) None]))"
  using assms
  by (simp add: execute_and_commit_def prog_defs cursor_defs connection_defs
      split: option.splits)

lemma commit_run:
  assumes "connection self = Some con" and "raises drv w Commit = None"
  shows "commit drv self w = (Inr (), w @ [Driver Commit None])"
  using assms by (simp add: commit_def prog_defs connection_defs)

text \<open>
  C5. Let \<open>f\<close> be one of the three mutating methods, on an open instance, and let the
  driver accept the statement. With autocommit on, the call that follows the execution
  is the commit, and when the driver accepts it the method returns with the change
  committed. With autocommit off the method returns after the execution alone, having
  issued no commit; the commit is then issued by an explicit call of \<^verbatim>\<open>commit\<close>.
\<close>

theorem mutation_commits_iff_autocommit:
  assumes "f = insert_row \<or> f = update_execute_query \<or> f = delete_execute_query"
    and "cursor self = Some cur" and "connection self = Some con"
    and "raises drv w (Execute query ps) = None"
  shows "(autocommit con \<longrightarrow>
            (\<exists>rest. snd (f drv self query ps w) =
               w @ [Driver (Execute query ps) None,
                    Driver Commit (raises drv (w @ [Driver (Execute query ps) None]) Commit)]
                 @ rest)
            \<and> (raises drv (w @ [Driver (Execute query ps) None]) Commit = None \<longrightarrow>
                 f drv self query ps w =
                   (Inr (), w @ [Driver (Execute query ps) None, Driver Commit None])))
       \<and> (\<not> autocommit con \<longrightarrow>
            f drv self query ps w = (Inr (), w @ [Driver (Execute query ps) None])
            \<and> (raises drv (w @ [Driver (Execute query ps) None]) Commit = None \<longrightarrow>
                 commit drv self (w @ [Driver (Execute query ps) None]) =
                   (Inr (), w @ [Driver (Execute query ps) None, Driver Commit None])))"
  using assms(1) execute_and_commit_run [OF assms(2,3,4)] assms(3)
    commit_run [OF assms(3), of drv "w @ [Driver (Execute query ps) None]"]
  by (auto simp: insert_row_def update_execute_query_def delete_execute_query_def
      try_except_def on_error_def and_then_def log_error_def raise_exn_def
      connection_rollback_def driver_call_def split: option.splits)

theorem mutation_commits_iff_autocommit_witness:
  "insert_row accepting_driver (open_helper True False)
      ''INSERT INTO my_table (column1, column2) VALUES (%s, %s);''
      (Some [VStr ''value1'', VStr ''value2'']) [] =
     (Inr (),
      [Driver (Execute ''INSERT INTO my_table (column1, column2) VALUES (%s, %s);''
                 (Some [VStr ''value1'', VStr ''value2''])) None,
       Driver Commit None])
   \<and> delete_execute_query accepting_driver (open_helper False False)
      ''DELETE FROM my_table WHERE id = %s;'' (Some [VInt 1]) [] =
     (Inr (), [Driver (Execute ''DELETE FROM my_table WHERE id = %s;'' (Some [VInt 1])) None])"
  using mutation_commits_iff_autocommit
          [where f = insert_row and self = "open_helper True False"
             and cur = "\<lparr>dict_rows = False\<rparr>" and con = "\<lparr>autocommit = True\<rparr>"
             and drv = accepting_driver and w = "[]"
             and query = "''INSERT INTO my_table (column1, column2) VALUES (%s, %s);''"
             and ps = "Some [VStr ''value1'', VStr ''value2'']"]
        mutation_commits_iff_autocommit
          [where f = delete_execute_query and self = "open_helper False False"
             and cur = "\<lparr>dict_rows = False\<rparr>" and con = "\<lparr>autocommit = False\<rparr>"
             and drv = accepting_driver and w = "[]"
             and query = "''DELETE FROM my_table WHERE id = %s;''"
             and ps = "Some [VInt 1]"]
  by (simp add: open_helper_def accepting_driver_def)

subsection \<open>\<^verbatim>\<open>bulk_insert\<close>: the chunks\<close>

text \<open>
  With a positive chunk size the slice at an index of the range is the next
  \<open>chunk_size\<close> rows, the range reaches the end of the data, and every index of it lies
  inside the data.
\<close>

lemma py_slice_chunk:
  assumes "0 \<le> i" "i < int (length xs)" "0 < k"
  shows "py_slice xs i (i + k) = take (nat k) (drop (nat i) xs)"
proof -
  define a where "a = nat i"
  define b where "b = nat k"
  have a: "a < length xs" and ab: "nat (i + k) = a + b"
    using assms by (simp_all add: a_def b_def nat_add_distrib)
  have lo: "clamp_index (length xs) i = a"
    using assms a by (simp add: clamp_index_def a_def)
  have hi: "clamp_index (length xs) (i + k) = min (a + b) (length xs)"
    using assms ab by (simp add: clamp_index_def)
  have "take (min (a + b) (length xs) - a) (drop a xs) = take b (drop a xs)"
  proof (cases "a + b \<le> length xs")
    case True
    then show ?thesis by (simp add: min_absorb1)
  next
    case False
    then show ?thesis by (simp add: min_absorb2)
  qed
  then show ?thesis
    by (simp add: py_slice_def lo hi Let_def a_def b_def)
qed

lemma concat_takes:
  "concat (map (\<lambda>j. take k (drop (j * k) xs)) [0 ..< m]) = take (m * k) xs"
proof (induction m)
  case 0
  then show ?case by simp
next
  case (Suc m)
  have "concat (map (\<lambda>j. take k (drop (j * k) xs)) [0 ..< Suc m]) =
        concat (map (\<lambda>j. take k (drop (j * k) xs)) [0 ..< m]) @ take k (drop (m * k) xs)"
    by simp
  also have "\<dots> = take (m * k) xs @ take k (drop (m * k) xs)"
    by (simp only: Suc.IH)
  also have "\<dots> = take (m * k + k) xs"
    by (simp only: take_add)
  finally show ?case by (simp add: add.commute)
qed

lemma range_len_covers:
  assumes "0 < k"
  shows "int n \<le> int (range_len 0 (int n) k) * k"
proof (cases "n = 0")
  case True
  then show ?thesis by (simp add: range_len_def)
next
  case False
  define q where "q = (int n - 1) div k"
  define r where "r = (int n - 1) mod k"
  have "q * k + r = int n - 1" unfolding q_def r_def by (rule div_mult_mod_eq)
  moreover have "r < k" unfolding r_def using assms by simp
  moreover have "(q + 1) * k = q * k + k" by (simp add: algebra_simps)
  ultimately have lt: "int n - 1 < (q + 1) * k" by linarith
  have "0 \<le> q" unfolding q_def using assms False by (simp add: pos_imp_zdiv_nonneg_iff)
  then have "int (range_len 0 (int n) k) = q + 1"
    using False assms by (simp add: range_len_def q_def)
  with lt show ?thesis by simp
qed

lemma range_len_inside:
  assumes "0 < k" "j < range_len 0 (int n) k"
  shows "int j * k < int n"
proof -
  from assms(2) have n: "0 < n" by (auto simp: range_len_def split: if_splits)
  define q where "q = (int n - 1) div k"
  define r where "r = (int n - 1) mod k"
  have qr: "q * k + r = int n - 1" unfolding q_def r_def by (rule div_mult_mod_eq)
  have r: "0 \<le> r" unfolding r_def using assms(1) by simp
  have q: "0 \<le> q" unfolding q_def using assms(1) n by (simp add: pos_imp_zdiv_nonneg_iff)
  from assms n q have "int j \<le> q"
    by (simp add: range_len_def q_def)
  then have "int j * k \<le> q * k"
    using assms(1) by (simp add: mult_right_mono)
  with qr r show ?thesis by linarith
qed

lemma chunks_positive:
  assumes "0 < k"
  shows "chunks data k =
     map (\<lambda>j. take (nat k) (drop (j * nat k) data)) [0 ..< range_len 0 (int (length data)) k]"
proof -
  have "\<And>j. j < range_len 0 (int (length data)) k \<Longrightarrow>
      py_slice data (int j * k) (int j * k + k) = take (nat k) (drop (j * nat k) data)"
  proof -
    fix j assume j: "j < range_len 0 (int (length data)) k"
    have "int j * k < int (length data)" using assms j by (rule range_len_inside)
    moreover have "0 \<le> int j * k" using assms by simp
    ultimately have "py_slice data (int j * k) (int j * k + k) =
        take (nat k) (drop (nat (int j * k)) data)"
      using assms by (simp add: py_slice_chunk)
    moreover have "nat (int j * k) = j * nat k"
      using assms by (simp add: nat_mult_distrib)
    ultimately show "py_slice data (int j * k) (int j * k + k) = take (nat k) (drop (j * nat k) data)"
      by simp
  qed
  then show ?thesis
    using assms by (simp add: chunks_def py_range_def map_upt_eqI comp_def cong: map_cong)
qed

lemma concat_chunks:
  assumes "0 < k"
  shows "concat (chunks data k) = data"
proof -
  have "int (length data) \<le> int (range_len 0 (int (length data)) k) * k"
    using assms by (rule range_len_covers)
  also have "\<dots> = int (range_len 0 (int (length data)) k * nat k)"
    using assms by simp
  finally have "length data \<le> range_len 0 (int (length data)) k * nat k"
    by linarith
  then show ?thesis
    by (simp add: chunks_positive [OF assms] concat_takes)
qed

lemma chunks_bounded:
  assumes "0 < k" "c \<in> set (chunks data k)"
  shows "c \<noteq> [] \<and> int (length c) \<le> k"
proof -
  from assms obtain j where j: "j < range_len 0 (int (length data)) k"
    and c: "c = take (nat k) (drop (j * nat k) data)"
    by (auto simp: chunks_positive)
  have "int j * k < int (length data)" using assms(1) j by (rule range_len_inside)
  moreover have "int j * k = int (j * nat k)" using assms(1) by simp
  ultimately have "j * nat k < length data" by linarith
  then show ?thesis using c assms(1) by auto
qed

subsection \<open>\<^verbatim>\<open>bulk_insert\<close>: the loop\<close>

lemma for_each_executemany_run:
  "for_each indices (\<lambda>i. cursor_executemany drv cur query (g i)) w = (Inr u, w')
   \<Longrightarrow> w' = w @ map (\<lambda>i. Driver (ExecuteMany query (g i)) None) indices"
proof (induction indices arbitrary: w)
  case Nil
  then show ?case by (simp add: ret_def)
next
  case (Cons i indices)
  from Cons.prems obtain w1 where
    step: "cursor_executemany drv cur query (g i) w = (Inr (), w1)"
    and rest: "for_each indices (\<lambda>i. cursor_executemany drv cur query (g i)) w1 = (Inr u, w')"
    by (auto simp: and_then_def split: prod.splits sum.splits)
  from step have "w1 = w @ [Driver (ExecuteMany query (g i)) None]"
    by (auto simp: cursor_executemany_def driver_call_def raise_exn_def split: option.splits)
  with Cons.IH [OF rest] show ?case by simp
qed

lemma for_each_executemany_accepted:
  assumes "\<And>w c. raises drv w c = None"
  shows "for_each indices (\<lambda>i. cursor_executemany drv (Some cur) query (g i)) w =
     (Inr (), w @ map (\<lambda>i. Driver (ExecuteMany query (g i)) None) indices)"
proof (induction indices arbitrary: w)
  case Nil
  then show ?case by (simp add: ret_def)
next
  case (Cons i indices)
  have "cursor_executemany drv (Some cur) query (g i) w =
      (Inr (), w @ [Driver (ExecuteMany query (g i)) None])"
    by (simp add: cursor_executemany_def driver_call_def assms)
  then show ?case by (simp add: and_then_def Cons.IH)
qed

lemma applied_executemany:
  "applied (map (\<lambda>c. Driver (ExecuteMany query c) None) cs) = map (Pair query) (concat cs)"
  by (induction cs) (simp_all add: applied_def)

lemma applied_append: "applied (xs @ ys) = applied xs @ applied ys"
  by (simp add: applied_def)

lemma bulk_insert_body_success:
  assumes "0 < chunk_size"
    and "bulk_insert_body drv self query data chunk_size w = (Inr u, w')"
  shows "\<exists>con. connection self = Some con \<and>
     w' = w @ map (\<lambda>c. Driver (ExecuteMany query c) None) (chunks data chunk_size)
            @ (if autocommit con then [Driver Commit None] else [])"
proof -
  from assms(1) obtain indices where
    r: "py_range 0 (int (length data)) chunk_size = Inr indices"
    by (simp add: py_range_def)
  then have ch: "chunks data chunk_size = map (\<lambda>i. py_slice data i (i + chunk_size)) indices"
    by (simp add: chunks_def)
  from assms(2) r obtain w2 where
    l2: "for_each indices (\<lambda>i. cursor_executemany drv (cursor self) query
              (py_slice data i (i + chunk_size))) w = (Inr (), w2)"
    and fin: "and_then (get_autocommit (connection self))
               (\<lambda>ac. if ac then connection_commit drv (connection self) else ret ()) w2 = (Inr u, w')"
    by (auto simp: bulk_insert_body_def and_then_def lift_def Let_def
        split: prod.splits sum.splits)
  from for_each_executemany_run [OF l2]
  have w2: "w2 = w @ map (\<lambda>c. Driver (ExecuteMany query c) None) (chunks data chunk_size)"
    by (simp add: ch comp_def)
  from fin obtain con where con: "connection self = Some con"
    and w': "w' = w2 @ (if autocommit con then [Driver Commit None] else [])"
    by (auto simp: prog_defs connection_defs split: option.splits if_splits)
  with w2 show ?thesis by simp
qed

lemma bulk_insert_accepted:
  assumes "\<And>w c. raises drv w c = None"
    and "cursor self = Some cur" and "connection self = Some con" and "0 < chunk_size"
  shows "\<exists>w'. bulk_insert drv self query data chunk_size w = (Inr (), w')"
  using assms
  by (simp add: bulk_insert_def bulk_insert_body_def py_range_def prog_defs connection_defs
      for_each_executemany_accepted Let_def)

text \<open>
  C6. For every row list and every positive chunk size, a \<^verbatim>\<open>bulk_insert\<close> that returns
  has passed the chunks to \<^verbatim>\<open>executemany\<close> in input order, each non-empty and of at
  most \<open>chunk_size\<close> rows; the rows applied are the input rows, one by one and in order,
  whatever the chunk size; and the only commit is the single one after the last chunk,
  present exactly when autocommit is on.
\<close>

theorem bulk_insert_rows_in_order:
  assumes "0 < chunk_size"
    and "bulk_insert drv self query data chunk_size w = (Inr u, w')"
  shows "\<exists>con. connection self = Some con \<and>
     w' = w @ map (\<lambda>c. Driver (ExecuteMany query c) None) (chunks data chunk_size)
            @ (if autocommit con then [Driver Commit None] else []) \<and>
     concat (chunks data chunk_size) = data \<and>
     (\<forall>c \<in> set (chunks data chunk_size). c \<noteq> [] \<and> int (length c) \<le> chunk_size) \<and>
     applied (drop (length w) w') = map (Pair query) data \<and>
     length (filter (\<lambda>ev. ev = Driver Commit None) (drop (length w) w')) =
       (if autocommit con then 1 else 0)"
proof -
  from assms(2) have "bulk_insert_body drv self query data chunk_size w = (Inr u, w')"
    by (auto simp: bulk_insert_def try_except_def on_error_def and_then_def log_error_def
        raise_exn_def connection_rollback_def driver_call_def
        split: prod.splits sum.splits option.splits)
  from bulk_insert_body_success [OF assms(1) this] obtain con where
    con: "connection self = Some con"
    and w': "w' = w @ map (\<lambda>c. Driver (ExecuteMany query c) None) (chunks data chunk_size)
            @ (if autocommit con then [Driver Commit None] else [])"
    by blast
  have cc: "concat (chunks data chunk_size) = data"
    using assms(1) by (rule concat_chunks)
  have bd: "\<forall>c \<in> set (chunks data chunk_size). c \<noteq> [] \<and> int (length c) \<le> chunk_size"
    using assms(1) chunks_bounded by blast
  have ap: "applied (drop (length w) w') = map (Pair query) data"
    by (simp add: w' applied_append applied_executemany cc) (simp add: applied_def)
  have cm: "length (filter (\<lambda>ev. ev = Driver Commit None) (drop (length w) w')) =
       (if autocommit con then 1 else 0)"
    by (simp add: w' filter_map comp_def)
  from con w' cc bd ap cm show ?thesis by blast
qed

theorem bulk_insert_rows_in_order_witness:
  "bulk_insert accepting_driver (open_helper True False)
      ''INSERT INTO my_table (column1) VALUES (%s);''
      [[VInt 1], [VInt 2], [VInt 3], [VInt 4], [VInt 5]] 2 [] =
     (Inr (),
      [Driver (ExecuteMany ''INSERT INTO my_table (column1) VALUES (%s);''
                 [[VInt 1], [VInt 2]]) None,
       Driver (ExecuteMany ''INSERT INTO my_table (column1) VALUES (%s);''
                 [[VInt 3], [VInt 4]]) None,
       Driver (ExecuteMany ''INSERT INTO my_table (column1) VALUES (%s);''
                 [[VInt 5]]) None,
       Driver Commit None])
   \<and> concat (chunks [[VInt 1], [VInt 2], [VInt 3], [VInt 4], [VInt 5]] 2) =
       [[VInt 1], [VInt 2], [VInt 3], [VInt 4], [VInt 5]]"
proof -
  have run: "bulk_insert accepting_driver (open_helper True False)
      ''INSERT INTO my_table (column1) VALUES (%s);''
      [[VInt 1], [VInt 2], [VInt 3], [VInt 4], [VInt 5]] 2 [] =
     (Inr (),
      [Driver (ExecuteMany ''INSERT INTO my_table (column1) VALUES (%s);''
                 [[VInt 1], [VInt 2]]) None,
       Driver (ExecuteMany ''INSERT INTO my_table (column1) VALUES (%s);''
                 [[VInt 3], [VInt 4]]) None,
       Driver (ExecuteMany ''INSERT INTO my_table (column1) VALUES (%s);''
                 [[VInt 5]]) None,
       Driver Commit None])"
    by code_simp
  have pos: "(0::int) < 2" by simp
  from bulk_insert_rows_in_order [OF pos run]
  have "concat (chunks [[VInt 1], [VInt 2], [VInt 3], [VInt 4], [VInt 5]] 2) =
       [[VInt 1], [VInt 2], [VInt 3], [VInt 4], [VInt 5]]"
    by blast
  with run show ?thesis by blast
qed

subsection \<open>\<^verbatim>\<open>bulk_insert\<close>: chunk sizes that are not positive\<close>

lemma py_range_negative_step:
  "0 \<le> stop \<Longrightarrow> step < 0 \<Longrightarrow> py_range 0 stop step = Inr []"
  by (simp add: py_range_def range_len_def)

text \<open>
  C10, as claimed: every non-positive chunk size makes \<^verbatim>\<open>bulk_insert\<close> fail with
  \<^verbatim>\<open>PostgresDbQueryExecutionError\<close>. With the chunk size \<open>-1\<close> the range is empty and
  not an error: the method executes nothing, commits and returns.
\<close>

theorem bulk_insert_negative_chunk_counterexample:
  "bulk_insert accepting_driver (open_helper True False)
      ''INSERT INTO my_table (column1, column2) VALUES (%s, %s);''
      [[VStr ''value1'', VStr ''value2'']] (- 1) [] =
     (Inr (), [Driver Commit None])"
  by (simp add: bulk_insert_def bulk_insert_body_def py_range_negative_step prog_defs
      connection_defs open_helper_def accepting_driver_def)

text \<open>
  C10, amended. On an instance with a connection, for every row list: with the chunk
  size \<open>0\<close> forming the range raises \<^verbatim>\<open>ValueError\<close> before any execution; the error is
  logged, \<^verbatim>\<open>rollback\<close> is called and, once the connection is rolled back, the method
  fails with \<^verbatim>\<open>PostgresDbQueryExecutionError\<close>. With a negative chunk size the range is
  empty: no row is executed and nothing is raised; the method goes on to the commit when
  autocommit is on, and returns.
\<close>

theorem bulk_insert_nonpositive_chunk:
  assumes "connection self = Some con" and "chunk_size \<le> 0"
  shows "(chunk_size = 0 \<longrightarrow>
            (\<exists>e. bulk_insert drv self query data chunk_size w =
               (Inl e,
                w @ [Log (logger self) ERROR
                       ''Error executing bulk insert: range() arg 3 must not be zero'',
                     Driver Rollback
                       (raises drv
                          (w @ [Log (logger self) ERROR
                                  ''Error executing bulk insert: range() arg 3 must not be zero''])
                          Rollback)])
             \<and> (raises drv
                   (w @ [Log (logger self) ERROR
                           ''Error executing bulk insert: range() arg 3 must not be zero''])
                   Rollback = None \<longrightarrow>
                 e = PostgresDbQueryExecutionError
                       ''Error executing bulk insert: range() arg 3 must not be zero'')))
       \<and> (chunk_size < 0 \<longrightarrow>
            (\<not> autocommit con \<longrightarrow>
               bulk_insert drv self query data chunk_size w = (Inr (), w))
            \<and> (autocommit con \<and> raises drv w Commit = None \<longrightarrow>
               bulk_insert drv self query data chunk_size w = (Inr (), w @ [Driver Commit None])))"
proof (cases "chunk_size = 0")
  case True
  with assms(1) show ?thesis
    by (auto simp: bulk_insert_def bulk_insert_body_def py_range_def on_error_def prog_defs
        connection_defs split: option.splits)
next
  case False
  with assms(2) have neg: "chunk_size < 0" by simp
  with assms(1) show ?thesis
    by (simp add: bulk_insert_def bulk_insert_body_def py_range_negative_step prog_defs
        connection_defs)
qed

theorem bulk_insert_nonpositive_chunk_witness:
  "bulk_insert accepting_driver (open_helper True False)
      ''INSERT INTO my_table (column1, column2) VALUES (%s, %s);''
      [[VStr ''value1'', VStr ''value2'']] 0 [] =
     (Inl (PostgresDbQueryExecutionError
            ''Error executing bulk insert: range() arg 3 must not be zero''),
      [Log initialize_logger ERROR
         ''Error executing bulk insert: range() arg 3 must not be zero'',
       Driver Rollback None])
   \<and> bulk_insert accepting_driver (open_helper False False)
      ''INSERT INTO my_table (column1, column2) VALUES (%s, %s);''
      [[VStr ''value1'', VStr ''value2'']] (- 50) [] = (Inr (), [])"
  using bulk_insert_nonpositive_chunk
          [where self = "open_helper True False" and con = "\<lparr>autocommit = True\<rparr>"
             and chunk_size = 0 and drv = accepting_driver and w = "[]"
             and query = "''INSERT INTO my_table (column1, column2) VALUES (%s, %s);''"
             and data = "[[VStr ''value1'', VStr ''value2'']]"]
        bulk_insert_nonpositive_chunk
          [where self = "open_helper False False" and con = "\<lparr>autocommit = False\<rparr>"
             and chunk_size = "- 50" and drv = accepting_driver and w = "[]"
             and query = "''INSERT INTO my_table (column1, column2) VALUES (%s, %s);''"
             and data = "[[VStr ''value1'', VStr ''value2'']]"]
  by (auto simp: open_helper_def accepting_driver_def)

subsection \<open>\<^verbatim>\<open>close\<close>\<close>




subsection \<open>Failures\<close>

lemma failed_calls_append [simp]: "failed_calls (a @ b) = failed_calls a @ failed_calls b"
  by (simp add: failed_calls_def)

lemma failed_calls_simps [simp]:
  "failed_calls [] = []"
  "failed_calls (Driver c (Some e) # w) = e # failed_calls w"
  "failed_calls (Driver c None # w) = failed_calls w"
  "failed_calls (Log lg lv msg # w) = failed_calls w"
  by (simp_all add: failed_calls_def)

lemma tidy_ret: "tidy (ret x)"
  by (simp add: tidy_def ret_def)

lemma tidy_raise_exn: "tidy (raise_exn e)"
  by (simp add: tidy_def raise_exn_def)

lemma tidy_lift: "tidy (lift r)"
  by (cases r) (simp_all add: tidy_def lift_def)

lemma tidy_driver_call: "tidy (driver_call drv c)"
  by (simp add: tidy_def driver_call_def split: option.splits)

lemma tidy_and_then:
  assumes "tidy m" and "\<And>x. tidy (f x)"
  shows "tidy (and_then m f)"
  unfolding tidy_def
proof
  fix w
  from assms(1) obtain pre1 where
    s1: "snd (m w) = w @ pre1"
    and c1: "case fst (m w) of Inr x \<Rightarrow> failed_calls pre1 = []
             | Inl cause \<Rightarrow> set (failed_calls pre1) \<subseteq> {cause}"
    unfolding tidy_def by blast
  show "\<exists>pre. snd (and_then m f w) = w @ pre \<and>
       (case fst (and_then m f w) of
          Inr x \<Rightarrow> failed_calls pre = []
        | Inl cause \<Rightarrow> set (failed_calls pre) \<subseteq> {cause})"
  proof (cases "fst (m w)")
    case (Inl e)
    then have "and_then m f w = (Inl e, w @ pre1)"
      using s1 by (cases "m w") (simp add: and_then_def)
    with c1 Inl show ?thesis by simp
  next
    case (Inr x)
    then have eq: "and_then m f w = f x (w @ pre1)"
      using s1 by (cases "m w") (simp add: and_then_def)
    from assms(2) [of x] obtain pre2 where
      s2: "snd (f x (w @ pre1)) = (w @ pre1) @ pre2"
      and c2: "case fst (f x (w @ pre1)) of Inr y \<Rightarrow> failed_calls pre2 = []
               | Inl cause \<Rightarrow> set (failed_calls pre2) \<subseteq> {cause}"
      unfolding tidy_def by blast
    from c1 Inr have "failed_calls pre1 = []" by simp
    with s2 c2 eq have "snd (and_then m f w) = w @ (pre1 @ pre2) \<and>
       (case fst (and_then m f w) of
          Inr x \<Rightarrow> failed_calls (pre1 @ pre2) = []
        | Inl cause \<Rightarrow> set (failed_calls (pre1 @ pre2)) \<subseteq> {cause})"
      by (simp split: sum.splits)
    then show ?thesis by blast
  qed
qed

lemma tidy_for_each:
  assumes "\<And>x. tidy (body x)"
  shows "tidy (for_each xs body)"
  by (induction xs) (simp_all add: tidy_ret tidy_and_then assms)

lemma tidy_cursor_execute: "tidy (cursor_execute drv cur query ps)"
  by (cases cur) (simp_all add: cursor_execute_def tidy_raise_exn tidy_driver_call)

lemma tidy_cursor_executemany: "tidy (cursor_executemany drv cur query rows)"
  by (cases cur) (simp_all add: cursor_executemany_def tidy_raise_exn tidy_driver_call)

lemma tidy_cursor_fetchall: "tidy (cursor_fetchall drv cur)"
  by (cases cur)
     (simp_all add: cursor_fetchall_def tidy_raise_exn, 
      simp add: tidy_def and_then_def driver_call_def ret_def split: option.splits)

lemma tidy_cursor_fetchone: "tidy (cursor_fetchone drv cur)"
  by (cases cur)
     (simp_all add: cursor_fetchone_def tidy_raise_exn,
      simp add: tidy_def and_then_def driver_call_def ret_def split: option.splits)

lemma tidy_get_autocommit: "tidy (get_autocommit con)"
  by (cases con) (simp_all add: get_autocommit_def tidy_raise_exn tidy_ret)

lemma tidy_connection_commit: "tidy (connection_commit drv con)"
  by (cases con) (simp_all add: connection_commit_def tidy_raise_exn tidy_driver_call)

lemma tidy_connection_rollback: "tidy (connection_rollback drv con)"
  by (cases con) (simp_all add: connection_rollback_def tidy_raise_exn tidy_driver_call)

lemmas tidy_intros = tidy_ret tidy_raise_exn tidy_lift tidy_driver_call tidy_and_then
  tidy_for_each tidy_cursor_execute tidy_cursor_executemany tidy_cursor_fetchall
  tidy_cursor_fetchone tidy_get_autocommit tidy_connection_commit tidy_connection_rollback

lemma tidy_execute_and_commit: "tidy (execute_and_commit drv self query ps)"
  unfolding execute_and_commit_def by (intro tidy_intros) (simp add: tidy_intros)

lemma tidy_bulk_insert_body: "tidy (bulk_insert_body drv self query data chunk_size)"
  unfolding bulk_insert_body_def Let_def by (intro tidy_intros) (simp add: tidy_intros)

lemma on_error_run:
  "on_error drv self p cause w1 =
     (case connection self of
        None \<Rightarrow> (Inl (none_has_no_attribute ''rollback''),
                  w1 @ [Log (logger self) ERROR (p @ str_exn cause)])
      | Some con \<Rightarrow>
          (case raises drv (w1 @ [Log (logger self) ERROR (p @ str_exn cause)]) Rollback of
             None \<Rightarrow> (Inl (PostgresDbQueryExecutionError (p @ str_exn cause)),
                       w1 @ [Log (logger self) ERROR (p @ str_exn cause), Driver Rollback None])
           | Some e' \<Rightarrow> (Inl e',
                        w1 @ [Log (logger self) ERROR (p @ str_exn cause),
                              Driver Rollback (Some e')])))"
  by (simp add: on_error_def prog_defs connection_rollback_def split: option.splits)

lemma try_on_error:
  assumes "tidy body"
  shows "\<exists>pre.
      (outcome (try_except body (on_error drv self p) w) = (None, w @ pre)
         \<and> failed_calls pre = [])
    \<or> (\<exists>cause. set (failed_calls pre) \<subseteq> {cause} \<and>
          outcome (try_except body (on_error drv self p) w) =
            (case connection self of
               None \<Rightarrow> (Some (none_has_no_attribute ''rollback''),
                         w @ pre @ [Log (logger self) ERROR (p @ str_exn cause)])
             | Some con \<Rightarrow>
                 (case raises drv (w @ pre @ [Log (logger self) ERROR (p @ str_exn cause)])
                         Rollback of
                    None \<Rightarrow> (Some (PostgresDbQueryExecutionError (p @ str_exn cause)),
                              w @ pre @ [Log (logger self) ERROR (p @ str_exn cause),
                                         Driver Rollback None])
                  | Some e' \<Rightarrow> (Some e',
                               w @ pre @ [Log (logger self) ERROR (p @ str_exn cause),
                                          Driver Rollback (Some e')]))))"
    (is "\<exists>pre. ?A pre \<or> (\<exists>cause. ?B pre cause)")
proof -
  from assms obtain pre where
    s: "snd (body w) = w @ pre"
    and c: "case fst (body w) of Inr x \<Rightarrow> failed_calls pre = []
            | Inl cause \<Rightarrow> set (failed_calls pre) \<subseteq> {cause}"
    unfolding tidy_def by blast
  show ?thesis
  proof (cases "fst (body w)")
    case (Inr x)
    with c s have "?A pre"
      by (cases "body w") (simp add: try_except_def outcome_def)
    then have "?A pre \<or> (\<exists>cause. ?B pre cause)" by (rule disjI1)
    then show ?thesis by (rule_tac x = pre in exI)
  next
    case (Inl cause)
    with c s have "?B pre cause"
      by (cases "body w")
         (simp add: try_except_def outcome_def on_error_run split: option.splits)
    then have "\<exists>cause. ?B pre cause" by (rule_tac x = cause in exI)
    then have "?A pre \<or> (\<exists>cause. ?B pre cause)" by (rule disjI2)
    then show ?thesis by (rule_tac x = pre in exI)
  qed
qed

lemma try_log_only:
  assumes "tidy body"
  shows "\<exists>pre.
      (outcome (try_except body
                 (\<lambda>e. and_then (log_error (logger self) (p @ str_exn e))
                        (\<lambda>_. raise_exn (PostgresDbQueryExecutionError (p @ str_exn e)))) w) =
         (None, w @ pre)
         \<and> failed_calls pre = [])
    \<or> (\<exists>cause. set (failed_calls pre) \<subseteq> {cause} \<and>
          outcome (try_except body
                 (\<lambda>e. and_then (log_error (logger self) (p @ str_exn e))
                        (\<lambda>_. raise_exn (PostgresDbQueryExecutionError (p @ str_exn e)))) w) =
            (Some (PostgresDbQueryExecutionError (p @ str_exn cause)),
             w @ pre @ [Log (logger self) ERROR (p @ str_exn cause)]))"
    (is "\<exists>pre. ?A pre \<or> (\<exists>cause. ?B pre cause)")
proof -
  from assms obtain pre where
    s: "snd (body w) = w @ pre"
    and c: "case fst (body w) of Inr x \<Rightarrow> failed_calls pre = []
            | Inl cause \<Rightarrow> set (failed_calls pre) \<subseteq> {cause}"
    unfolding tidy_def by blast
  show ?thesis
  proof (cases "fst (body w)")
    case (Inr x)
    with c s have "?A pre"
      by (cases "body w") (simp add: try_except_def outcome_def)
    then have "?A pre \<or> (\<exists>cause. ?B pre cause)" by (rule disjI1)
    then show ?thesis by (rule_tac x = pre in exI)
  next
    case (Inl cause)
    with c s have "?B pre cause"
      by (cases "body w") (simp add: try_except_def outcome_def and_then_def log_error_def
          raise_exn_def)
    then have "\<exists>cause. ?B pre cause" by (rule_tac x = cause in exI)
    then have "?A pre \<or> (\<exists>cause. ?B pre cause)" by (rule disjI2)
    then show ?thesis by (rule_tac x = pre in exI)
  qed
qed

lemma tidy_select_body:
  "tidy (and_then (cursor_execute drv (cursor self) query ps) (\<lambda>_.
        if startswith (lower (strip query)) ''select''
        then and_then (cursor_fetchall drv (cursor self)) (\<lambda>rows. ret (Some rows))
        else ret None))"
  by (intro tidy_intros) (simp add: tidy_intros)

lemma tidy_count_body:
  "tidy (and_then (cursor_execute drv (cursor self) query ps) (\<lambda>_.
        and_then (cursor_fetchone drv (cursor self)) (\<lambda>result.
        lift (if use_dict_cursor self then getitem_str result ''count''
              else getitem_0 result))))"
  by (intro tidy_intros)

text \<open>
  C4, as claimed: every failure of a statement is signalled as
  \<^verbatim>\<open>PostgresDbQueryExecutionError\<close>. The handler calls \<^verbatim>\<open>rollback\<close> outside any
  \<^verbatim>\<open>try\<close>; on a server that has gone away the rollback raises too, and its exception
  is what reaches the caller.
\<close>

theorem failure_not_wrapped_counterexample:
  "select_execute_query broken_driver (open_helper True False)
      ''SELECT * FROM my_table;'' None [] =
     (Inl (DriverError ''connection already closed''),
      [Driver (Execute ''SELECT * FROM my_table;'' None)
         (Some (DriverError ''server closed the connection unexpectedly'')),
       Log initialize_logger ERROR
         ''Error executing query: server closed the connection unexpectedly'',
       Driver Rollback (Some (DriverError ''connection already closed''))])"
  by (simp add: select_execute_query_def on_error_def prog_defs cursor_defs connection_defs
      broken_driver_def open_helper_def)

text \<open>
  C4, amended. Every operation either returns, and then no driver call of it has
  failed, or it fails with a cause, the only failed call of its body if any call
  failed. The cause is logged with the method's text. The six executing methods then
  attempt the rollback: without a connection object the attempt raises
  \<^verbatim>\<open>AttributeError\<close>; when the driver refuses the rollback, its exception reaches the
  caller; when the rollback succeeds, the caller gets \<^verbatim>\<open>PostgresDbQueryExecutionError\<close>
  with the cause's text. \<^verbatim>\<open>commit\<close> and \<^verbatim>\<open>rollback\<close> attempt no rollback and always
  signal \<^verbatim>\<open>PostgresDbQueryExecutionError\<close> with the cause's text.
\<close>

theorem failure_policy:
  "\<exists>pre.
      (perform drv self op w = (None, w @ pre) \<and> failed_calls pre = [])
    \<or> (\<exists>cause. set (failed_calls pre) \<subseteq> {cause} \<and>
          perform drv self op w =
            (if rolls_back op
             then (case connection self of
                     None \<Rightarrow>
                       (Some (none_has_no_attribute ''rollback''),
                        w @ pre @ [Log (logger self) ERROR (error_prefix op @ str_exn cause)])
                   | Some con \<Rightarrow>
                       (case raises drv
                               (w @ pre @ [Log (logger self) ERROR
                                             (error_prefix op @ str_exn cause)])
                               Rollback of
                          None \<Rightarrow>
                            (Some (PostgresDbQueryExecutionError
                                     (error_prefix op @ str_exn cause)),
                             w @ pre @ [Log (logger self) ERROR
                                          (error_prefix op @ str_exn cause),
                                        Driver Rollback None])
                        | Some e' \<Rightarrow>
                            (Some e',
                             w @ pre @ [Log (logger self) ERROR
                                          (error_prefix op @ str_exn cause),
                                        Driver Rollback (Some e')])))
             else (Some (PostgresDbQueryExecutionError (error_prefix op @ str_exn cause)),
                   w @ pre @ [Log (logger self) ERROR (error_prefix op @ str_exn cause)])))"
proof (cases op)
  case (SelectExecuteQuery query ps)
  show ?thesis
    unfolding SelectExecuteQuery perform.simps error_prefix.simps rolls_back.simps
      select_execute_query_def if_True
    by (rule try_on_error) (rule tidy_select_body)
next
  case (SelectGetCountQuery query ps)
  show ?thesis
    unfolding SelectGetCountQuery perform.simps error_prefix.simps rolls_back.simps
      select_get_count_query_def if_True
    by (rule try_on_error) (rule tidy_count_body)
next
  case (Insert query ps)
  show ?thesis
    unfolding Insert perform.simps error_prefix.simps rolls_back.simps
      insert_row_def if_True
    by (rule try_on_error) (rule tidy_execute_and_commit)
next
  case (BulkInsert query data chunk_size)
  show ?thesis
    unfolding BulkInsert perform.simps error_prefix.simps rolls_back.simps
      bulk_insert_def if_True
    by (rule try_on_error) (rule tidy_bulk_insert_body)
next
  case (UpdateExecuteQuery query ps)
  show ?thesis
    unfolding UpdateExecuteQuery perform.simps error_prefix.simps rolls_back.simps
      update_execute_query_def if_True
    by (rule try_on_error) (rule tidy_execute_and_commit)
next
  case (DeleteExecuteQuery query ps)
  show ?thesis
    unfolding DeleteExecuteQuery perform.simps error_prefix.simps rolls_back.simps
      delete_execute_query_def if_True
    by (rule try_on_error) (rule tidy_execute_and_commit)
next
  case CommitTransaction
  show ?thesis
    unfolding CommitTransaction perform.simps error_prefix.simps rolls_back.simps
      commit_def if_False
    by (rule try_log_only) (rule tidy_connection_commit)
next
  case RollbackTransaction
  show ?thesis
    unfolding RollbackTransaction perform.simps error_prefix.simps rolls_back.simps
      rollback_def if_False
    by (rule try_log_only) (rule tidy_connection_rollback)
qed

theorem failure_policy_witness:
  "perform rejecting_driver (open_helper False False)
      (SelectExecuteQuery ''SELECT FROM my_table;'' None) [] =
     (Some (PostgresDbQueryExecutionError
              ''Error executing query: syntax error at or near FROM''),
      [Driver (Execute ''SELECT FROM my_table;'' None)
         (Some (DriverError ''syntax error at or near FROM'')),
       Log initialize_logger ERROR ''Error executing query: syntax error at or near FROM'',
       Driver Rollback None])
   \<and> perform accepting_driver (open_helper False False) CommitTransaction [] =
     (None, [Driver Commit None])"
  using failure_policy [of rejecting_driver "open_helper False False"
                           "SelectExecuteQuery ''SELECT FROM my_table;'' None" "[]"]
        failure_policy [of accepting_driver "open_helper False False" CommitTransaction "[]"]
  by (simp add: outcome_def select_execute_query_def commit_def on_error_def prog_defs
      cursor_defs connection_defs rejecting_driver_def accepting_driver_def open_helper_def)

end
